theory Spec2Isabelle
  imports Complex_Main "HOL-Library.Sublist" "HOL-Library.Multiset"
begin

section \<open>Python values shared by the three modules\<close>

text \<open>
  A raised Python exception is a value: its class name and the text that \<open>str(e)\<close>
  gives. Every fallible call of the source returns \<open>exn + 'a\<close>, with \<open>Inl\<close> the
  raised exception. Only exceptions deriving from \<open>Exception\<close> are modelled, which is
  what \<open>open\<close>, \<open>write\<close>, the tokenizer, the agent executor and the output parser
  raise by themselves.
\<close>

datatype exn = Raise (exn_class: string) (exn_str: string)

abbreviation NL :: string where
  "NL \<equiv> [CHR 0x0A]"

section \<open>llm_tools.py: the save tool\<close>

text \<open>
  \<open>datetime.now()\<close> is an input of each call. The fields are those of Python's
  \<open>datetime\<close>; \<open>valid_datetime\<close> is the range check of its constructor.
\<close>

record datetime =
  year :: nat
  month :: nat
  day :: nat
  hour :: nat
  minute :: nat
  second :: nat

definition valid_datetime :: "datetime \<Rightarrow> bool" where
  "valid_datetime t \<longleftrightarrow>
     1 \<le> year t \<and> year t \<le> 9999 \<and> 1 \<le> month t \<and> month t \<le> 12 \<and>
     1 \<le> day t \<and> day t \<le> 31 \<and> hour t \<le> 23 \<and> minute t \<le> 59 \<and> second t \<le> 59"

definition digit_char :: "nat \<Rightarrow> char" where
  "digit_char d = char_of (48 + d)"

fun decimal :: "nat \<Rightarrow> string" where
  "decimal n = (if n < 10 then [digit_char n] else decimal (n div 10) @ [digit_char (n mod 10)])"

declare decimal.simps [simp del]

definition zfill :: "nat \<Rightarrow> string \<Rightarrow> string" where
  "zfill w s = replicate (w - length s) (CHR ''0'') @ s"

text \<open>\<open>strftime("%Y-%m-%d %H:%M:%S")\<close>: every field zero-padded to its width.\<close>

definition strftime :: "datetime \<Rightarrow> string" where
  "strftime t =
     zfill 4 (decimal (year t)) @ ''-'' @ zfill 2 (decimal (month t)) @ ''-'' @
     zfill 2 (decimal (day t)) @ '' '' @ zfill 2 (decimal (hour t)) @ '':'' @
     zfill 2 (decimal (minute t)) @ '':'' @ zfill 2 (decimal (second t))"

text \<open>
  The file store maps a file name to the text written and the encoding it was written
  with. What \<open>open\<close> and \<open>write\<close> do in one call is an input as well: both succeed,
  \<open>open\<close> raises (the file is untouched), or \<open>open(filename, "w")\<close> has truncated
  the file and the write raises.
\<close>

record stored_file =
  encoding :: string
  text_of :: string

type_synonym file_store = "string \<rightharpoonup> stored_file"

datatype io_outcome = Succeeds | OpenRaises exn | WriteRaises exn

definition open_w_write :: "io_outcome \<Rightarrow> string \<Rightarrow> string \<Rightarrow> string \<Rightarrow> file_store \<Rightarrow> (exn + unit) \<times> file_store" where
  "open_w_write io filename enc txt fs =
     (case io of
        Succeeds \<Rightarrow> (Inr (), fs(filename \<mapsto> \<lparr>encoding = enc, text_of = txt\<rparr>))
      | OpenRaises e \<Rightarrow> (Inl e, fs)
      | WriteRaises e \<Rightarrow> (Inl e, fs(filename \<mapsto> \<lparr>encoding = enc, text_of = []\<rparr>)))"

definition formatted_text :: "string \<Rightarrow> string \<Rightarrow> string" where
  "formatted_text timestamp_now data =
     ''---- Final Output ---- '' @ NL @ ''Timestamp: '' @ timestamp_now @ NL @ NL @ data @ NL @ NL"

definition save_to_txt_file :: "datetime \<Rightarrow> io_outcome \<Rightarrow> string \<Rightarrow> string \<Rightarrow> file_store \<Rightarrow> (exn + string) \<times> file_store" where
  "save_to_txt_file now io data filename fs =
     (let timestamp_now = strftime now;
          txt = formatted_text timestamp_now data
      in case open_w_write io filename ''utf-8'' txt fs of
           (Inr _, fs') \<Rightarrow> (Inr (''Data saved successfully to '' @ filename @ ''.''), fs')
         | (Inl e, fs') \<Rightarrow> (Inr (''Failed to save data: '' @ exn_str e), fs'))"

text \<open>The tool calls the function with the payload alone, so with the default file name.\<close>

definition save_tool :: "datetime \<Rightarrow> io_outcome \<Rightarrow> string \<Rightarrow> file_store \<Rightarrow> (exn + string) \<times> file_store" where
  "save_tool now io data fs = save_to_txt_file now io data ''output.txt'' fs"

text \<open>The shape \<open>YYYY-MM-DD HH:MM:SS\<close>: nineteen characters, digits around the separators.\<close>

definition is_digit :: "char \<Rightarrow> bool" where
  "is_digit c \<longleftrightarrow> (48::nat) \<le> of_char c \<and> of_char c \<le> (57::nat)"

definition timestamp_form :: "string \<Rightarrow> bool" where
  "timestamp_form s \<longleftrightarrow>
     length s = 19 \<and>
     list_all (\<lambda>i. is_digit (s ! i)) [0, 1, 2, 3, 5, 6, 8, 9, 11, 12, 14, 15, 17, 18] \<and>
     s ! 4 = CHR ''-'' \<and> s ! 7 = CHR ''-'' \<and> s ! 10 = CHR '' '' \<and>
     s ! 13 = CHR '':'' \<and> s ! 16 = CHR '':''"

section \<open>app.py: the HTTP endpoint\<close>

text \<open>
  The value \<open>request.get_json()\<close> returns is a parsed JSON document. An object is kept
  as the list of its members, looked up with \<open>map_of\<close> as the dictionary would be.
\<close>

datatype json =
    JNull
  | JBool bool
  | JInt int
  | JFloat real
  | JString string
  | JArray "json list"
  | JObject "(string \<times> json) list"

text \<open>Python's truth value of such a value, as \<open>not query\<close> tests it.\<close>

fun truthy :: "json \<Rightarrow> bool" where
  "truthy JNull = False"
| "truthy (JBool b) = b"
| "truthy (JInt n) = (n \<noteq> 0)"
| "truthy (JFloat x) = (x \<noteq> 0)"
| "truthy (JString s) = (s \<noteq> [])"
| "truthy (JArray xs) = (xs \<noteq> [])"
| "truthy (JObject kvs) = (kvs \<noteq> [])"

fun py_type_name :: "json \<Rightarrow> string" where
  "py_type_name JNull = ''NoneType''"
| "py_type_name (JBool _) = ''bool''"
| "py_type_name (JInt _) = ''int''"
| "py_type_name (JFloat _) = ''float''"
| "py_type_name (JString _) = ''str''"
| "py_type_name (JArray _) = ''list''"
| "py_type_name (JObject _) = ''dict''"

text \<open>\<open>d.get(k, default)\<close>: only a dictionary has the method.\<close>

definition dict_get :: "json \<Rightarrow> string \<Rightarrow> json \<Rightarrow> exn + json" where
  "dict_get d k dflt =
     (case d of
        JObject kvs \<Rightarrow> Inr (case map_of kvs k of None \<Rightarrow> dflt | Some v \<Rightarrow> v)
      | _ \<Rightarrow> Inl (Raise ''AttributeError''
                 ([CHR 0x27] @ py_type_name d @ [CHR 0x27] @ '' object has no attribute '' @
                  [CHR 0x27] @ ''get'' @ [CHR 0x27])))"

record ResearchTheResponse =
  topic :: string
  summary :: string
  sources :: "string list"
  tools_used :: "string list"

definition model_dump :: "ResearchTheResponse \<Rightarrow> json" where
  "model_dump r =
     JObject [(''topic'', JString (topic r)), (''summary'', JString (summary r)),
              (''sources'', JArray (map JString (sources r))),
              (''tools_used'', JArray (map JString (tools_used r)))]"

text \<open>
  What the agent library does is an input of the handler. \<open>agent_invoke\<close> stands for
  lines 34 to 62, which build the model client, the prompt and the executor and run
  \<open>agent_executor.invoke({"query": query})\<close>; it returns the dictionary of the run or
  raises. \<open>json_decode\<close> is the reading of a text as JSON that \<open>llm_parser.parse\<close>
  starts with; it raises on a text that holds no JSON value. \<open>validation_error\<close> is
  the exception the parser raises for a decoded value that the schema class rejects.
\<close>

record agent_env =
  agent_invoke :: "json \<Rightarrow> exn + (string \<times> string) list"
  json_decode :: "string \<Rightarrow> exn + json"
  validation_error :: "json \<Rightarrow> exn"

text \<open>
  Validation of a decoded value against \<open>ResearchTheResponse\<close>, as pydantic does it
  for a class that declares these four fields and no configuration: the value is a
  dictionary; each declared field is present, a \<open>str\<close> field holding a string and a
  \<open>list[str]\<close> field a list whose items are strings; members of the dictionary that
  the class does not declare are ignored.
\<close>

fun str_items :: "json list \<Rightarrow> string list option" where
  "str_items [] = Some []"
| "str_items (JString s # vs) =
     (case str_items vs of None \<Rightarrow> None | Some ss \<Rightarrow> Some (s # ss))"
| "str_items (_ # vs) = None"

fun as_str :: "json option \<Rightarrow> string option" where
  "as_str (Some (JString s)) = Some s"
| "as_str _ = None"

fun as_str_list :: "json option \<Rightarrow> string list option" where
  "as_str_list (Some (JArray vs)) = str_items vs"
| "as_str_list _ = None"

definition model_validate :: "json \<Rightarrow> ResearchTheResponse option" where
  "model_validate obj =
     (case obj of
        JObject members \<Rightarrow>
          (case as_str (map_of members ''topic'') of
             None \<Rightarrow> None
           | Some t \<Rightarrow>
               (case as_str (map_of members ''summary'') of
                  None \<Rightarrow> None
                | Some s \<Rightarrow>
                    (case as_str_list (map_of members ''sources'') of
                       None \<Rightarrow> None
                     | Some srcs \<Rightarrow>
                         (case as_str_list (map_of members ''tools_used'') of
                            None \<Rightarrow> None
                          | Some tools \<Rightarrow>
                              Some \<lparr>topic = t, summary = s, sources = srcs,
                                    tools_used = tools\<rparr>))))
      | _ \<Rightarrow> None)"

text \<open>\<open>llm_parser.parse(text)\<close>: decode, then validate against the schema class.\<close>

definition parser_parse :: "agent_env \<Rightarrow> string \<Rightarrow> exn + ResearchTheResponse" where
  "parser_parse env text =
     (case json_decode env text of
        Inl e \<Rightarrow> Inl e
      | Inr obj \<Rightarrow>
          (case model_validate obj of
             None \<Rightarrow> Inl (validation_error env obj)
           | Some r \<Rightarrow> Inr r))"

definition raw_output :: "(string \<times> string) list \<Rightarrow> string" where
  "raw_output raw_response = (case map_of raw_response ''output'' of None \<Rightarrow> [] | Some s \<Rightarrow> s)"

text \<open>
  The handler takes what \<open>request.get_json()\<close> gave (it raises on a body that is not
  JSON) and returns the pair of body and status it hands to Flask, or the exception that
  leaves it, together with the queries the agent executor was invoked with, in order.
\<close>

definition get_query_response ::
  "agent_env \<Rightarrow> exn + json \<Rightarrow> (exn + json \<times> nat) \<times> json list" where
  "get_query_response env get_json =
     (case get_json of
        Inl e \<Rightarrow> (Inl e, [])
      | Inr data \<Rightarrow>
          (case dict_get data ''query'' (JString []) of
             Inl e \<Rightarrow> (Inl e, [])
           | Inr query \<Rightarrow>
               if \<not> truthy query
               then (Inr (JObject [(''Error'', JString ''Query Required!!'')], 404), [])
               else
                 (case agent_invoke env query of
                    Inl e \<Rightarrow> (Inl e, [query])
                  | Inr raw_response \<Rightarrow>
                      (case parser_parse env (raw_output raw_response) of
                         Inr structured_response \<Rightarrow>
                           (Inr (JObject [(''response'', model_dump structured_response)], 200),
                            [query])
                       | Inl e \<Rightarrow>
                           (Inr (JObject [(''Error'', JString (exn_str e))], 500), [query])))))"

text \<open>
  Example environments for the endpoint: calls that always raise or always return, and
  the constant function.
\<close>

definition always :: "'b \<Rightarrow> 'a \<Rightarrow> 'b" where
  "always v x = v"

definition always_raises :: "exn \<Rightarrow> 'a \<Rightarrow> exn + 'b" where
  "always_raises e x = Inl e"

definition always_returns :: "'b \<Rightarrow> 'a \<Rightarrow> exn + 'b" where
  "always_returns v x = Inr v"

section \<open>check_api_usage.py: the token-cost script\<close>

text \<open>
  A Python float is the real number it denotes, and each float operation rounds its exact
  result: \<open>rnd\<close> is that rounding, an input like the rest of the platform. Writes to
  standard output, and with them the \<open>verbose\<close> flag, are left out; no value the
  functions return depends on them.
\<close>

record pricing =
  price_input :: int
  price_output :: int

definition MODEL_PRICING :: "(string \<times> pricing) list" where
  "MODEL_PRICING = [(''gpt-4o'', \<lparr>price_input = 5, price_output = 20\<rparr>)]"

definition DEFAULT_MODEL :: string where
  "DEFAULT_MODEL = ''gpt-4o''"

text \<open>
  What the operating system and the tokenizer answer is an input: \<open>read_text\<close> is
  \<open>open(filepath, 'r', encoding='utf-8')\<close> followed by \<open>read()\<close>, \<open>getsize\<close> is
  \<open>os.path.getsize\<close>, and \<open>encode\<close> is \<open>tiktoken.encoding_for_model("gpt-4o")\<close>
  followed by \<open>encoding.encode(text)\<close>. Each returns or raises. \<open>rnd\<close> is the
  rounding of the float arithmetic.
\<close>

record os_env =
  read_text :: "string \<Rightarrow> exn + string"
  getsize :: "string \<Rightarrow> exn + nat"
  encode :: "string \<Rightarrow> exn + nat list"
  rnd :: "real \<Rightarrow> real"

definition count_tokens :: "os_env \<Rightarrow> string \<Rightarrow> string \<Rightarrow> int" where
  "count_tokens os text model =
     (case encode os text of
        Inr tokens \<Rightarrow> int (length tokens)
      | Inl e \<Rightarrow> int (length text) div 4)"

definition calculate_cost :: "(real \<Rightarrow> real) \<Rightarrow> real \<Rightarrow> real \<Rightarrow> string \<Rightarrow> exn + real" where
  "calculate_cost fl input_tokens output_tokens model =
     (let model = (if map_of MODEL_PRICING model = None then DEFAULT_MODEL else model) in
      case map_of MODEL_PRICING model of
        None \<Rightarrow> Inl (Raise ''KeyError'' ([CHR 0x27] @ model @ [CHR 0x27]))
      | Some pricing \<Rightarrow>
          (let input_cost = fl (fl (input_tokens / 1000000) * real_of_int (price_input pricing));
               output_cost = fl (fl (output_tokens / 1000000) * real_of_int (price_output pricing))
           in Inr (fl (input_cost + output_cost))))"

text \<open>The dictionary a file's analysis returns; \<open>error\<close> is \<open>None\<close> when the key is absent.\<close>

record file_result =
  filepath :: string
  tokens :: int
  size_bytes :: int
  tokens_per_kb :: real
  error :: "string option"

definition analyze_file_tokens :: "os_env \<Rightarrow> string \<Rightarrow> string \<Rightarrow> file_result" where
  "analyze_file_tokens os path model =
     (case read_text os path of
        Inl e \<Rightarrow>
          \<lparr>filepath = path, tokens = 0, size_bytes = 0, tokens_per_kb = 0,
           error = Some (exn_str e)\<rparr>
      | Inr content \<Rightarrow>
          (let token_count = count_tokens os content model in
           case getsize os path of
             Inl e \<Rightarrow>
               \<lparr>filepath = path, tokens = 0, size_bytes = 0, tokens_per_kb = 0,
                error = Some (exn_str e)\<rparr>
           | Inr file_size \<Rightarrow>
               \<lparr>filepath = path, tokens = token_count, size_bytes = int file_size,
                tokens_per_kb =
                  (if file_size > 0
                   then rnd os (real_of_int token_count / rnd os (real file_size / 1024))
                   else 0),
                error = None\<rparr>))"

text \<open>
  The directory under \<open>directory\<close>: the names of its files and its subdirectories.
  \<open>os_walk\<close> lists it top-down as \<open>os.walk\<close> does, one triple of path, subdirectory
  names and file names for each directory, with \<open>os.path.join\<close> building the paths.
\<close>

datatype dirtree = Dir (dir_files: "string list") (dir_subdirs: "(string \<times> dirtree) list")

definition path_join :: "string \<Rightarrow> string \<Rightarrow> string" where
  "path_join a b =
     (if b \<noteq> [] \<and> hd b = CHR ''/'' then b
      else if a = [] \<or> last a = CHR ''/'' then a @ b
      else a @ ''/'' @ b)"

fun os_walk :: "string \<Rightarrow> dirtree \<Rightarrow> (string \<times> string list \<times> string list) list"
  and os_walk_subdirs :: "string \<Rightarrow> (string \<times> dirtree) list \<Rightarrow> (string \<times> string list \<times> string list) list"
where
  "os_walk topdir (Dir files subdirs) = (topdir, map fst subdirs, files) # os_walk_subdirs topdir subdirs"
| "os_walk_subdirs topdir [] = []"
| "os_walk_subdirs topdir ((name, d) # rest) =
     os_walk (path_join topdir name) d @ os_walk_subdirs topdir rest"

definition SKIP_DIRS :: "string list" where
  "SKIP_DIRS = [''.git'', ''__pycache__'', ''venv'', ''env'', ''node_modules'']"

text \<open>\<open>any(skip_dir in root for skip_dir in [...])\<close>: \<open>in\<close> on two strings is the substring test.\<close>

definition skip_dir_in :: "string \<Rightarrow> bool" where
  "skip_dir_in root_dir = list_ex (\<lambda>skip_dir. sublist skip_dir root_dir) SKIP_DIRS"

definition has_file_type :: "string list \<Rightarrow> string \<Rightarrow> bool" where
  "has_file_type file_types file = list_ex (\<lambda>ext. suffix ext file) file_types"

text \<open>The three variables the loop updates.\<close>

record scan_state =
  acc_tokens :: int
  acc_files :: int
  acc_results :: "file_result list"

text \<open>The body of the inner loop, for one file name of one walked directory.\<close>

definition process_file ::
  "os_env \<Rightarrow> string list \<Rightarrow> string \<Rightarrow> string \<Rightarrow> string \<Rightarrow> scan_state \<Rightarrow> scan_state" where
  "process_file os file_types model root_dir file st =
     (if skip_dir_in root_dir then st
      else if has_file_type file_types file then
        (let path = path_join root_dir file;
             result = analyze_file_tokens os path model
         in if error result = None
            then st\<lparr>acc_tokens := acc_tokens st + tokens result,
                    acc_files := acc_files st + 1,
                    acc_results := acc_results st @ [result]\<rparr>
            else st)
      else st)"

definition scan_files ::
  "os_env \<Rightarrow> string list \<Rightarrow> string \<Rightarrow> string \<Rightarrow> string list \<Rightarrow> scan_state \<Rightarrow> scan_state" where
  "scan_files os file_types model root_dir files st =
     foldl (\<lambda>st file. process_file os file_types model root_dir file st) st files"

definition scan_walk ::
  "os_env \<Rightarrow> string list \<Rightarrow> string \<Rightarrow> (string \<times> string list \<times> string list) list \<Rightarrow> scan_state \<Rightarrow> scan_state" where
  "scan_walk os file_types model walk st =
     foldl (\<lambda>st (root_dir, dirs, files). scan_files os file_types model root_dir files st) st walk"

text \<open>\<open>file_results.sort(key=lambda x: x["tokens"], reverse=True)\<close>: stable, descending.\<close>

definition sort_by_tokens_desc :: "file_result list \<Rightarrow> file_result list" where
  "sort_by_tokens_desc rs = rev (sort_key tokens (rev rs))"

record cost_estimates =
  all_input :: real
  all_output :: real
  mixed :: real

record usage =
  total_tokens :: int
  total_files :: int
  costs :: cost_estimates
  file_results :: "file_result list"

text \<open>
  \<open>tree\<close> is the directory found at \<open>directory\<close>, or \<open>None\<close> when there is none, in
  which case \<open>os.walk\<close> yields nothing. \<open>file_types\<close> is \<open>None\<close> for the default.
\<close>

definition estimate_project_usage ::
  "os_env \<Rightarrow> dirtree option \<Rightarrow> string \<Rightarrow> string list option \<Rightarrow> string \<Rightarrow> exn + usage" where
  "estimate_project_usage os tree directory file_types model =
     (let file_types =
            (case file_types of None \<Rightarrow> [''.py'', ''.txt'', ''.md'', ''.json''] | Some ts \<Rightarrow> ts);
          walk = (case tree of None \<Rightarrow> [] | Some d \<Rightarrow> os_walk directory d);
          st = scan_walk os file_types model walk
                 \<lparr>acc_tokens = 0, acc_files = 0, acc_results = []\<rparr>;
          total = acc_tokens st;
          sorted_results = sort_by_tokens_desc (acc_results st)
      in case calculate_cost (rnd os) (real_of_int total) 0 model of
           Inl e \<Rightarrow> Inl e
         | Inr input_cost \<Rightarrow>
             (case calculate_cost (rnd os) 0 (real_of_int total) model of
                Inl e \<Rightarrow> Inl e
              | Inr output_cost \<Rightarrow>
                  (case calculate_cost (rnd os) (rnd os (real_of_int total / 2))
                          (rnd os (real_of_int total / 2)) model of
                     Inl e \<Rightarrow> Inl e
                   | Inr mixed_cost \<Rightarrow>
                       Inr \<lparr>total_tokens = total, total_files = acc_files st,
                            costs = \<lparr>all_input = input_cost, all_output = output_cost,
                                     mixed = mixed_cost\<rparr>,
                            file_results = sorted_results\<rparr>)))"

text \<open>
  The reading of the skip rule by path components, for comparison with \<open>skip_dir_in\<close>:
  some component of the directory path, split at \<open>/\<close>, is one of the five names.
\<close>

fun split_on :: "char \<Rightarrow> string \<Rightarrow> string list" where
  "split_on c [] = [[]]"
| "split_on c (x # xs) =
     (if x = c then [] # split_on c xs
      else (case split_on c xs of [] \<Rightarrow> [[x]] | w # ws \<Rightarrow> (x # w) # ws))"

definition skip_by_component :: "string \<Rightarrow> bool" where
  "skip_by_component root_dir = list_ex (\<lambda>name. name \<in> set SKIP_DIRS) (split_on (CHR ''/'') root_dir)"

text \<open>
  The analyses the loop runs, in its order: for each walked directory that is not
  skipped, one result for each file name with a wanted extension.
\<close>

definition analysed ::
  "os_env \<Rightarrow> string list \<Rightarrow> string \<Rightarrow> string \<Rightarrow> string list \<Rightarrow> file_result list" where
  "analysed os file_types model root_dir files =
     (if skip_dir_in root_dir then []
      else map (\<lambda>file. analyze_file_tokens os (path_join root_dir file) model)
             (filter (has_file_type file_types) files))"

definition analysed_walk ::
  "os_env \<Rightarrow> string list \<Rightarrow> string \<Rightarrow> (string \<times> string list \<times> string list) list \<Rightarrow> file_result list" where
  "analysed_walk os file_types model walk =
     concat (map (\<lambda>(root_dir, dirs, files). analysed os file_types model root_dir files) walk)"

abbreviation (input) no_error :: "file_result \<Rightarrow> bool" where
  "no_error \<equiv> (\<lambda>r. error r = None)"

text \<open>An example call that raises on one argument and returns on every other.\<close>

definition raises_on :: "'a \<Rightarrow> exn \<Rightarrow> 'b \<Rightarrow> 'a \<Rightarrow> exn + 'b" where
  "raises_on bad e v x = (if x = bad then Inl e else Inr v)"

section \<open>Proofs: the save tool\<close>

subsection \<open>Formatting the timestamp\<close>

lemma is_digit_digit_char: "d < 10 \<Longrightarrow> is_digit (digit_char d)"
  by (simp add: is_digit_def digit_char_def)

lemma digit_char_0: "digit_char 0 = CHR ''0''"
  unfolding digit_char_def by code_simp

lemma decimal_small: "n < 10 \<Longrightarrow> decimal n = [digit_char n]"
  by (subst decimal.simps) simp

lemma decimal_step: "10 \<le> n \<Longrightarrow> decimal n = decimal (n div 10) @ [digit_char (n mod 10)]"
  by (subst decimal.simps) simp

lemma zfill_snoc: "zfill (Suc w) (s @ [c]) = zfill w s @ [c]"
  by (simp add: zfill_def)

lemma zfill1: "n < 10 \<Longrightarrow> zfill (Suc 0) (decimal n) = [digit_char n]"
  by (simp add: zfill_def decimal_small)

lemma zfill2: 
  assumes "n < 100"
  shows "zfill (Suc (Suc 0)) (decimal n) = [digit_char (n div 10), digit_char (n mod 10)]"
proof (cases "n < 10")
  case True
  then show ?thesis by (simp add: zfill_def digit_char_0 decimal_small)
next
  case False
  then have "decimal n = decimal (n div 10) @ [digit_char (n mod 10)]"
    by (simp add: decimal_step)
  moreover from assms have "n div 10 < 10" by simp
  ultimately show ?thesis by (simp only: zfill_snoc zfill1) simp
qed

lemma zfill3:
  assumes "n < 1000"
  shows "zfill (Suc (Suc (Suc 0))) (decimal n) =
    [digit_char (n div 100), digit_char (n div 10 mod 10), digit_char (n mod 10)]"
proof (cases "n < 10")
  case True
  then show ?thesis by (simp add: zfill_def digit_char_0 decimal_small)
next
  case False
  then have "decimal n = decimal (n div 10) @ [digit_char (n mod 10)]"
    by (simp add: decimal_step)
  moreover from assms have "n div 10 < 100" by simp
  moreover have "n div 10 div 10 = n div 100" by (simp add: div_mult2_eq[symmetric])
  ultimately show ?thesis by (simp only: zfill_snoc zfill2) simp
qed

lemma zfill4:
  assumes "n < 10000"
  shows "zfill (Suc (Suc (Suc (Suc 0)))) (decimal n) =
    [digit_char (n div 1000), digit_char (n div 100 mod 10), digit_char (n div 10 mod 10), digit_char (n mod 10)]"
proof (cases "n < 10")
  case True
  then show ?thesis by (simp add: zfill_def digit_char_0 decimal_small)
next
  case False
  then have "decimal n = decimal (n div 10) @ [digit_char (n mod 10)]"
    by (simp add: decimal_step)
  moreover from assms have "n div 10 < 1000" by simp
  moreover have "n div 10 div 100 = n div 1000" "n div 10 div 10 = n div 100"
    by (simp_all add: div_mult2_eq[symmetric])
  ultimately show ?thesis by (simp only: zfill_snoc zfill3) simp
qed

lemma four_Suc: "(4::nat) = Suc (Suc (Suc (Suc 0)))" and two_Suc: "(2::nat) = Suc (Suc 0)"
  by simp_all

lemma zfill2n: "n < 100 \<Longrightarrow> zfill 2 (decimal n) = [digit_char (n div 10), digit_char (n mod 10)]"
  by (simp only: two_Suc zfill2)

lemma zfill4n: "n < 10000 \<Longrightarrow> zfill 4 (decimal n) =
    [digit_char (n div 1000), digit_char (n div 100 mod 10), digit_char (n div 10 mod 10), digit_char (n mod 10)]"
  by (simp only: four_Suc zfill4)

lemma strftime_explicit:
  assumes "valid_datetime t"
  shows "strftime t =
    [digit_char (year t div 1000), digit_char (year t div 100 mod 10),
     digit_char (year t div 10 mod 10), digit_char (year t mod 10), CHR ''-'',
     digit_char (month t div 10), digit_char (month t mod 10), CHR ''-'',
     digit_char (day t div 10), digit_char (day t mod 10), CHR '' '',
     digit_char (hour t div 10), digit_char (hour t mod 10), CHR '':'',
     digit_char (minute t div 10), digit_char (minute t mod 10), CHR '':'',
     digit_char (second t div 10), digit_char (second t mod 10)]"
proof -
  from assms have "year t < 10000" "month t < 100" "day t < 100" "hour t < 100"
    "minute t < 100" "second t < 100"
    by (simp_all add: valid_datetime_def)
  then show ?thesis
    unfolding strftime_def
    by (simp add: zfill2n zfill4n)
qed

lemma timestamp_form_strftime:
  assumes "valid_datetime t"
  shows "timestamp_form (strftime t)"
proof -
  from assms have "year t < 10000" "month t < 100" "day t < 100" "hour t < 100"
    "minute t < 100" "second t < 100"
    by (simp_all add: valid_datetime_def)
  then have "year t div 1000 < 10" "month t div 10 < 10" "day t div 10 < 10"
    "hour t div 10 < 10" "minute t div 10 < 10" "second t div 10 < 10"
    by simp_all
  then show ?thesis
    by (simp add: strftime_explicit[OF assms] timestamp_form_def is_digit_digit_char)
qed

lemma save_succeeds_store:
  "snd (save_to_txt_file now Succeeds d filename fs) =
     fs(filename \<mapsto> \<lparr>encoding = ''utf-8'', text_of = formatted_text (strftime now) d\<rparr>)"
  by (simp add: save_to_txt_file_def open_w_write_def)

lemma strftime_example:
  "strftime \<lparr>year = 2025, month = 1, day = 2, hour = 3, minute = 4, second = 5\<rparr> = ''2025-01-02 03:04:05''"
  by code_simp


text \<open>
  Claim C4. Each call opens the file in mode \<open>"w"\<close>: when the second of two calls on one
  file name succeeds, the file holds the second payload only, whatever the first call wrote
  or did. Its text is the header line, the line \<open>Timestamp: YYYY-MM-DD HH:MM:SS\<close>, an
  empty line, the payload and an empty line, written with encoding \<open>utf-8\<close>. The same
  holds for the tool, which writes \<open>output.txt\<close>.
\<close>

theorem save_to_txt_file_overwrites:
  assumes "valid_datetime now2"
  shows "snd (save_to_txt_file now2 Succeeds d2 filename
                (snd (save_to_txt_file now1 io1 d1 filename fs))) filename =
           Some \<lparr>encoding = ''utf-8'',
                 text_of = ''---- Final Output ---- '' @ NL @ ''Timestamp: '' @ strftime now2 @
                           NL @ NL @ d2 @ NL @ NL\<rparr>
         \<and> timestamp_form (strftime now2)
         \<and> snd (save_tool now2 Succeeds d2 (snd (save_tool now1 io1 d1 fs))) ''output.txt'' =
           Some \<lparr>encoding = ''utf-8'',
                 text_of = ''---- Final Output ---- '' @ NL @ ''Timestamp: '' @ strftime now2 @
                           NL @ NL @ d2 @ NL @ NL\<rparr>"
  using timestamp_form_strftime[OF assms]
  by (simp add: save_succeeds_store save_tool_def formatted_text_def)

theorem save_to_txt_file_overwrites_witness:
  "valid_datetime \<lparr>year = 2025, month = 1, day = 2, hour = 3, minute = 4, second = 5\<rparr> \<and>
   snd (save_to_txt_file \<lparr>year = 2025, month = 1, day = 2, hour = 3, minute = 4, second = 5\<rparr>
          Succeeds ''second'' ''output.txt''
          (snd (save_to_txt_file \<lparr>year = 2025, month = 1, day = 2, hour = 3, minute = 4, second = 4\<rparr>
                  Succeeds ''first'' ''output.txt'' Map.empty))) ''output.txt'' =
     Some \<lparr>encoding = ''utf-8'',
           text_of = ''---- Final Output ---- '' @ NL @ ''Timestamp: 2025-01-02 03:04:05'' @
                     NL @ NL @ ''second'' @ NL @ NL\<rparr> \<and>
   timestamp_form ''2025-01-02 03:04:05''"
proof -
  have v: "valid_datetime \<lparr>year = 2025, month = 1, day = 2, hour = 3, minute = 4, second = 5\<rparr>"
    by (simp add: valid_datetime_def)
  show ?thesis
    using v save_to_txt_file_overwrites[OF v, of "''second''" "''output.txt''"
        "\<lparr>year = 2025, month = 1, day = 2, hour = 3, minute = 4, second = 4\<rparr>"
        Succeeds "''first''" Map.empty]
    by (simp only: strftime_example) simp
qed


text \<open>
  Claim C5. For every payload, file name, store and outcome of the write, the function
  returns a string and raises nothing: the text \<open>Failed to save data: \<close> followed by
  \<open>str(e)\<close> when \<open>open\<close> or the write raised \<open>e\<close>, the success message otherwise.
\<close>

theorem save_to_txt_file_never_raises:
  "fst (save_to_txt_file now io data filename fs) =
     Inr (case io of
            Succeeds \<Rightarrow> ''Data saved successfully to '' @ filename @ ''.''
          | OpenRaises e \<Rightarrow> ''Failed to save data: '' @ exn_str e
          | WriteRaises e \<Rightarrow> ''Failed to save data: '' @ exn_str e)"
  by (cases io) (simp_all add: save_to_txt_file_def open_w_write_def)

theorem save_to_txt_file_never_raises_witness:
  "fst (save_to_txt_file \<lparr>year = 2025, month = 1, day = 2, hour = 3, minute = 4, second = 5\<rparr>
          (OpenRaises (Raise ''PermissionError'' ''[Errno 13] Permission denied''))
          ''payload'' ''output.txt'' Map.empty) =
     Inr ''Failed to save data: [Errno 13] Permission denied''"
  using save_to_txt_file_never_raises[of
      "\<lparr>year = 2025, month = 1, day = 2, hour = 3, minute = 4, second = 5\<rparr>"
      "OpenRaises (Raise ''PermissionError'' ''[Errno 13] Permission denied'')"
      "''payload''" "''output.txt''" Map.empty]
  by simp

section \<open>Proofs: the HTTP endpoint\<close>

text \<open>The handler on a request whose JSON body is an object.\<close>

lemma handler_on_object:
  "get_query_response env (Inr (JObject kvs)) =
     (let query = (case map_of kvs ''query'' of None \<Rightarrow> JString [] | Some v \<Rightarrow> v) in
      if \<not> truthy query
      then (Inr (JObject [(''Error'', JString ''Query Required!!'')], 404), [])
      else
        (case agent_invoke env query of
           Inl e \<Rightarrow> (Inl e, [query])
         | Inr raw_response \<Rightarrow>
             (case parser_parse env (raw_output raw_response) of
                Inr structured_response \<Rightarrow>
                  (Inr (JObject [(''response'', model_dump structured_response)], 200), [query])
              | Inl e \<Rightarrow> (Inr (JObject [(''Error'', JString (exn_str e))], 500), [query]))))"
  by (simp add: get_query_response_def dict_get_def Let_def)

lemma falsy_values:
  "\<not> truthy v \<longleftrightarrow>
     v \<in> {JNull, JBool False, JInt 0, JFloat 0, JString [], JArray [], JObject []}"
  by (cases v) auto


text \<open>
  Claim C2. When the JSON object of the request has no member \<open>query\<close>, or its \<open>query\<close>
  is the empty string, the handler returns status 404 with the body
  \<open>{"Error": "Query Required!!"}\<close>, and the agent executor was not invoked (the list of
  invocations is empty).
\<close>

theorem missing_or_empty_query_404:
  assumes "map_of kvs ''query'' = None \<or> map_of kvs ''query'' = Some (JString [])"
  shows "get_query_response env (Inr (JObject kvs)) =
           (Inr (JObject [(''Error'', JString ''Query Required!!'')], 404), [])"
  using assms by (auto simp: handler_on_object)

theorem missing_or_empty_query_404_witness:
  "get_query_response \<lparr>agent_invoke = always_returns [(''output'', ''{}'')],
                        json_decode = always_raises (Raise ''OutputParserException'' ''bad''),
                        validation_error = always (Raise ''OutputParserException'' ''bad'')\<rparr>
     (Inr (JObject [(''other'', JInt 1)])) =
     (Inr (JObject [(''Error'', JString ''Query Required!!'')], 404), []) \<and>
   get_query_response \<lparr>agent_invoke = always_returns [(''output'', ''{}'')],
                        json_decode = always_raises (Raise ''OutputParserException'' ''bad''),
                        validation_error = always (Raise ''OutputParserException'' ''bad'')\<rparr>
     (Inr (JObject [(''query'', JString [])])) =
     (Inr (JObject [(''Error'', JString ''Query Required!!'')], 404), [])"
proof -
  have a: "map_of [(''other'', JInt 1)] ''query'' = None \<or>
           map_of [(''other'', JInt 1)] ''query'' = Some (JString [])"
    by simp
  have b: "map_of [(''query'', JString [])] ''query'' = None \<or>
           map_of [(''query'', JString [])] ''query'' = Some (JString [])"
    by simp
  show ?thesis
    using missing_or_empty_query_404[OF a] missing_or_empty_query_404[OF b] by blast
qed


text \<open>
  Claim C10. Every falsy JSON value of \<open>query\<close> (null, false, 0, 0.0, the empty string,
  the empty array, the empty object) gives the same result as a request without the
  member: status 404 with \<open>{"Error": "Query Required!!"}\<close> and no invocation.
\<close>

theorem falsy_query_404:
  assumes "map_of kvs ''query'' = Some v"
    and "v \<in> {JNull, JBool False, JInt 0, JFloat 0, JString [], JArray [], JObject []}"
  shows "get_query_response env (Inr (JObject kvs)) =
           (Inr (JObject [(''Error'', JString ''Query Required!!'')], 404), []) \<and>
         get_query_response env (Inr (JObject kvs)) = get_query_response env (Inr (JObject []))"
proof -
  from assms(2) have "\<not> truthy v" by (simp only: falsy_values)
  with assms(1) show ?thesis by (simp add: handler_on_object)
qed

theorem falsy_query_404_witness:
  "get_query_response \<lparr>agent_invoke = always_returns [(''output'', ''{}'')],
                        json_decode = always_raises (Raise ''OutputParserException'' ''bad''),
                        validation_error = always (Raise ''OutputParserException'' ''bad'')\<rparr>
     (Inr (JObject [(''query'', JInt 0)])) =
     (Inr (JObject [(''Error'', JString ''Query Required!!'')], 404), [])"
proof -
  have a: "map_of [(''query'', JInt 0)] ''query'' = Some (JInt 0)" by simp
  have b: "JInt 0 \<in> {JNull, JBool False, JInt 0, JFloat 0, JString [], JArray [], JObject []}"
    by simp
  show ?thesis using falsy_query_404[OF a b] by blast
qed


text \<open>
  The parse of the model's output stands inside the \<open>try\<close> block: an exception it
  raises gives status 500 with the body \<open>{"Error": str(e)}\<close>. An exception of the
  agent executor, called before the block, leaves the handler.
\<close>

lemma parse_exception_gives_500:
  assumes "map_of kvs ''query'' = Some q" and "truthy q"
    and "agent_invoke env q = Inr raw"
    and "parser_parse env (case map_of raw ''output'' of None \<Rightarrow> [] | Some s \<Rightarrow> s) = Inl e"
  shows "get_query_response env (Inr (JObject kvs)) =
           (Inr (JObject [(''Error'', JString (exn_str e))], 500), [q])"
  using assms by (simp add: handler_on_object raw_output_def)

lemma invoke_exception_propagates:
  assumes "map_of kvs ''query'' = Some q" and "truthy q"
    and "agent_invoke env q = Inl e"
  shows "get_query_response env (Inr (JObject kvs)) = (Inl e, [q])"
  using assms by (simp add: handler_on_object)

text \<open>
  Claim C1. The claim asks the 500 response with an \<open>Error\<close> member for an exception of
  the agent executor as well. The handler does not give it: for the query \<open>cats\<close> and
  an executor that raises \<open>APIConnectionError\<close>, the exception leaves the handler and
  no JSON body is returned.
\<close>

theorem invoke_exception_leaves_handler:
  "fst (get_query_response
          \<lparr>agent_invoke = always_raises (Raise ''APIConnectionError'' ''Connection error.''),
           json_decode = always_raises (Raise ''OutputParserException'' ''bad''),
           validation_error = always (Raise ''OutputParserException'' ''bad'')\<rparr>
          (Inr (JObject [(''query'', JString ''cats'')]))) =
     Inl (Raise ''APIConnectionError'' ''Connection error.'') \<and>
   fst (get_query_response
          \<lparr>agent_invoke = always_raises (Raise ''APIConnectionError'' ''Connection error.''),
           json_decode = always_raises (Raise ''OutputParserException'' ''bad''),
           validation_error = always (Raise ''OutputParserException'' ''bad'')\<rparr>
          (Inr (JObject [(''query'', JString ''cats'')]))) \<noteq>
     Inr (JObject [(''Error'', JString ''Connection error.'')], 500)"
  by (simp add: handler_on_object always_raises_def)










section \<open>Proofs: the token-cost script\<close>

subsection \<open>The pricing table\<close>

text \<open>The table has one entry, so every model name is priced as \<open>gpt-4o\<close>.\<close>

lemma calculate_cost_eq:
  "calculate_cost fl i o' m =
     Inr (fl (fl (fl (i / 1000000) * 5) + fl (fl (o' / 1000000) * 20)))"
  by (simp add: calculate_cost_def MODEL_PRICING_def DEFAULT_MODEL_def Let_def)

text \<open>
  Claim C8. For a model name that is not in the pricing table, \<open>calculate_cost\<close> raises
  nothing (the lookup after the fallback finds the default model) and returns what it
  returns for \<open>gpt-4o\<close>.
\<close>

theorem unknown_model_falls_back:
  assumes "m \<notin> set (map fst MODEL_PRICING)"
  shows "calculate_cost fl i o' m = calculate_cost fl i o' ''gpt-4o'' \<and>
         calculate_cost fl i o' m =
           Inr (fl (fl (fl (i / 1000000) * 5) + fl (fl (o' / 1000000) * 20)))"
  by (simp add: calculate_cost_eq)

theorem unknown_model_falls_back_witness:
  "''claude-3'' \<notin> set (map fst MODEL_PRICING) \<and>
   calculate_cost id 1000000 500000 ''claude-3'' = calculate_cost id 1000000 500000 ''gpt-4o'' \<and>
   calculate_cost id 1000000 500000 ''claude-3'' = Inr 15"
proof -
  have a: "''claude-3'' \<notin> set (map fst MODEL_PRICING)"
    by (simp add: MODEL_PRICING_def)
  show ?thesis
    using a unknown_model_falls_back[OF a, of id 1000000 500000] by auto
qed

subsection \<open>The loop over the walked directories\<close>

text \<open>
  The loop adds to its three variables the analyses without error, in order; the closed
  form of \<open>estimate_project_usage\<close> follows.
\<close>

lemma analysed_Cons:
  "analysed os ft model r (file # files) = analysed os ft model r [file] @ analysed os ft model r files"
  by (simp add: analysed_def)

lemma process_file_acc:
  "process_file os ft model r file st =
     st\<lparr>acc_tokens := acc_tokens st + sum_list (map tokens (filter no_error (analysed os ft model r [file]))),
        acc_files := acc_files st + int (length (filter no_error (analysed os ft model r [file]))),
        acc_results := acc_results st @ filter no_error (analysed os ft model r [file])\<rparr>"
  by (simp add: process_file_def analysed_def Let_def)

lemma scan_files_acc:
  "scan_files os ft model r files st =
     st\<lparr>acc_tokens := acc_tokens st + sum_list (map tokens (filter no_error (analysed os ft model r files))),
        acc_files := acc_files st + int (length (filter no_error (analysed os ft model r files))),
        acc_results := acc_results st @ filter no_error (analysed os ft model r files)\<rparr>"
proof (induction files arbitrary: st)
  case Nil
  then show ?case by (simp add: scan_files_def analysed_def)
next
  case (Cons f files)
  have "scan_files os ft model r (f # files) st =
        scan_files os ft model r files (process_file os ft model r f st)"
    by (simp add: scan_files_def)
  then show ?case
    by (simp add: Cons.IH process_file_acc analysed_Cons[of os ft model r f files])
qed

lemma scan_walk_acc:
  "scan_walk os ft model walk st =
     st\<lparr>acc_tokens := acc_tokens st + sum_list (map tokens (filter no_error (analysed_walk os ft model walk))),
        acc_files := acc_files st + int (length (filter no_error (analysed_walk os ft model walk))),
        acc_results := acc_results st @ filter no_error (analysed_walk os ft model walk)\<rparr>"
proof (induction walk arbitrary: st)
  case Nil
  then show ?case by (simp add: scan_walk_def analysed_walk_def)
next
  case (Cons entry walk)
  obtain r dirs files where entry: "entry = (r, dirs, files)" by (cases entry) auto
  have "scan_walk os ft model (entry # walk) st =
        scan_walk os ft model walk (scan_files os ft model r files st)"
    by (simp add: scan_walk_def entry)
  moreover have "analysed_walk os ft model (entry # walk) =
        analysed os ft model r files @ analysed_walk os ft model walk"
    by (simp add: analysed_walk_def entry)
  ultimately show ?case
    by (simp add: Cons.IH scan_files_acc)
qed

lemma sum_tokens_sorted:
  "sum_list (map tokens (sort_by_tokens_desc rs)) = sum_list (map tokens rs)"
proof -
  have "mset (sort_by_tokens_desc rs) = mset rs"
    by (simp add: sort_by_tokens_desc_def)
  then have "mset (map tokens (sort_by_tokens_desc rs)) = mset (map tokens rs)"
    by simp
  then show ?thesis by (metis sum_mset_sum_list)
qed

lemma estimate_project_usage_eq:
  "estimate_project_usage os tree directory file_types model =
     (let ft = (case file_types of None \<Rightarrow> [''.py'', ''.txt'', ''.md'', ''.json''] | Some ts \<Rightarrow> ts);
          walk = (case tree of None \<Rightarrow> [] | Some d \<Rightarrow> os_walk directory d);
          kept = filter no_error (analysed_walk os ft model walk);
          total = sum_list (map tokens kept)
      in Inr \<lparr>total_tokens = total, total_files = int (length kept),
              costs =
                \<lparr>all_input =
                   rnd os (rnd os (rnd os (real_of_int total / 1000000) * 5) +
                           rnd os (rnd os 0 * 20)),
                 all_output =
                   rnd os (rnd os (rnd os 0 * 5) +
                           rnd os (rnd os (real_of_int total / 1000000) * 20)),
                 mixed =
                   rnd os (rnd os (rnd os (rnd os (real_of_int total / 2) / 1000000) * 5) +
                           rnd os (rnd os (rnd os (real_of_int total / 2) / 1000000) * 20))\<rparr>,
              file_results = sort_by_tokens_desc kept\<rparr>)"
  by (simp add: estimate_project_usage_def calculate_cost_eq scan_walk_acc Let_def)

lemma mset_sorted: "mset (sort_by_tokens_desc rs) = mset rs"
  by (simp add: sort_by_tokens_desc_def)

lemma length_sorted: "length (sort_by_tokens_desc rs) = length rs"
  by (simp add: sort_by_tokens_desc_def)

lemma set_sorted: "set (sort_by_tokens_desc rs) = set rs"
  by (simp add: sort_by_tokens_desc_def)

lemma process_file_failed:
  "error (analyze_file_tokens os (path_join r f) model) \<noteq> None \<Longrightarrow>
   process_file os ft model r f st = st"
  by (auto simp: process_file_def Let_def)

subsection \<open>The skip rule\<close>

text \<open>A component of a path is a substring of it, so a directory named in the list is skipped.\<close>

lemma split_on_nonempty: "split_on c s \<noteq> []"
  by (induction s) (auto split: list.splits)

lemma split_on_hd_prefix: "prefix (hd (split_on c s)) s"
  by (induction s) (auto split: list.splits)

lemma split_on_sublist: "w \<in> set (split_on c s) \<Longrightarrow> sublist w s"
proof (induction s arbitrary: w)
  case Nil
  then show ?case by simp
next
  case (Cons x xs)
  show ?case
  proof (cases "x = c")
    case True
    with Cons.prems have "w = [] \<or> w \<in> set (split_on c xs)" by simp
    then show ?thesis using Cons.IH by (auto simp: sublist_Cons_right)
  next
    case False
    obtain v vs where vs: "split_on c xs = v # vs"
      using split_on_nonempty[of c xs] by (cases "split_on c xs") auto
    with False Cons.prems have "w = x # v \<or> w \<in> set vs" by simp
    then show ?thesis
    proof
      assume "w = x # v"
      moreover have "prefix v xs" using split_on_hd_prefix[of c xs] vs by simp
      ultimately show ?thesis by (simp add: sublist_Cons_right)
    next
      assume "w \<in> set vs"
      then have "w \<in> set (split_on c xs)" using vs by simp
      then show ?thesis using Cons.IH by (simp add: sublist_Cons_right)
    qed
  qed
qed

lemma skip_by_component_imp: "skip_by_component r \<Longrightarrow> skip_dir_in r"
  by (auto simp: skip_by_component_def skip_dir_in_def list_ex_iff dest: split_on_sublist)

lemma scan_files_skipped: "skip_dir_in r \<Longrightarrow> scan_files os ft model r files st = st"
  by (simp add: scan_files_acc analysed_def)

text \<open>
  Claim C3. The claim asks that only a directory named exactly one of the five names is
  skipped. The code does not do so: its test is \<open>skip_dir in root\<close> on strings. The
  file \<open>notes.txt\<close> under the directory \<open>.github\<close> is skipped, since
  \<open>./.github\<close> contains \<open>.git\<close>, although no component of the path is one of the
  five names; under \<open>docs\<close> the same file is counted. The directories
  \<open>environment\<close> and \<open>node_modules_old\<close> are skipped in the same way.
\<close>

theorem skip_rule_overmatches:
  "\<not> skip_by_component ''./.github'' \<and>
   skip_dir_in ''./.github'' \<and>
   \<not> skip_by_component ''./environment'' \<and>
   skip_dir_in ''./environment'' \<and>
   \<not> skip_by_component ''./node_modules_old'' \<and>
   skip_dir_in ''./node_modules_old'' \<and>
   estimate_project_usage
     \<lparr>read_text = always_returns ''hello world'', getsize = always_returns 11,
      encode = always_returns (replicate 40 0), rnd = id\<rparr>
     (Some (Dir [] [(''.github'', Dir [''notes.txt''] [])])) ''.'' None ''gpt-4o'' =
   Inr \<lparr>total_tokens = 0, total_files = 0,
        costs = \<lparr>all_input = 0, all_output = 0, mixed = 0\<rparr>, file_results = []\<rparr> \<and>
   estimate_project_usage
     \<lparr>read_text = always_returns ''hello world'', getsize = always_returns 11,
      encode = always_returns (replicate 40 0), rnd = id\<rparr>
     (Some (Dir [] [(''docs'', Dir [''notes.txt''] [])])) ''.'' None ''gpt-4o'' =
   Inr \<lparr>total_tokens = 40, total_files = 1,
        costs = \<lparr>all_input = 1 / 5000, all_output = 1 / 1250, mixed = 1 / 2000\<rparr>,
        file_results = [\<lparr>filepath = ''./docs/notes.txt'', tokens = 40, size_bytes = 11,
              tokens_per_kb = 40960 / 11, error = None\<rparr>]\<rparr>"
  by code_simp

text \<open>
  Claim C6. The price of \<open>gpt-4o\<close> is 5 for input and 20 for output, per million
  tokens. When the rounding keeps 0 and rounded values as they are, then for every
  directory, file types and model name the estimate is returned, and its \<open>all_input\<close>
  cost is the float value of the total token count divided by 1,000,000, times 5: the
  output term of the sum adds nothing. For a directory holding one file that is read and
  tokenized, the total is the number of its tokens.
\<close>

theorem all_input_cost:
  assumes "rnd os 0 = 0" and "\<forall>x. rnd os (rnd os x) = rnd os x"
  shows
  "map_of MODEL_PRICING ''gpt-4o'' = Some \<lparr>price_input = 5, price_output = 20\<rparr> \<and>
   calculate_cost (rnd os) (real_of_int T) 0 model =
     Inr (rnd os (rnd os (real_of_int T / 1000000) * 5)) \<and>
   (\<exists>u. estimate_project_usage os tree directory file_types model = Inr u \<and>
        all_input (costs u) = rnd os (rnd os (real_of_int (total_tokens u) / 1000000) * 5) \<and>
        (tree = Some (Dir [f] []) \<and> \<not> skip_dir_in directory \<and>
         has_file_type (case file_types of None \<Rightarrow> [''.py'', ''.txt'', ''.md'', ''.json'']
                        | Some ts \<Rightarrow> ts) f \<and>
         read_text os (path_join directory f) = Inr content \<and>
         encode os content = Inr toks \<and>
         getsize os (path_join directory f) = Inr sz \<longrightarrow>
         total_tokens u = int (length toks) \<and>
         all_input (costs u) = rnd os (rnd os (real (length toks) / 1000000) * 5)))"
proof -
  have zero: "rnd os (rnd os a + rnd os (rnd os 0 * 20)) = rnd os a" for a
    using assms by simp
  have "map_of MODEL_PRICING ''gpt-4o'' = Some \<lparr>price_input = 5, price_output = 20\<rparr>"
    by (simp add: MODEL_PRICING_def)
  moreover have "calculate_cost (rnd os) (real_of_int T) 0 model =
     Inr (rnd os (rnd os (real_of_int T / 1000000) * 5))"
    by (simp add: calculate_cost_eq zero)
  moreover have "\<exists>u. estimate_project_usage os tree directory file_types model = Inr u \<and>
        all_input (costs u) = rnd os (rnd os (real_of_int (total_tokens u) / 1000000) * 5) \<and>
        (tree = Some (Dir [f] []) \<and> \<not> skip_dir_in directory \<and>
         has_file_type (case file_types of None \<Rightarrow> [''.py'', ''.txt'', ''.md'', ''.json'']
                        | Some ts \<Rightarrow> ts) f \<and>
         read_text os (path_join directory f) = Inr content \<and>
         encode os content = Inr toks \<and>
         getsize os (path_join directory f) = Inr sz \<longrightarrow>
         total_tokens u = int (length toks) \<and>
         all_input (costs u) = rnd os (rnd os (real (length toks) / 1000000) * 5))"
    by (simp add: estimate_project_usage_eq Let_def analysed_walk_def analysed_def
        analyze_file_tokens_def count_tokens_def zero)
  ultimately show ?thesis by blast
qed

theorem all_input_cost_witness:
  "\<exists>u. estimate_project_usage
          \<lparr>read_text = always_returns ''hello world'', getsize = always_returns 11,
           encode = always_returns (replicate 40 0), rnd = id\<rparr>
          (Some (Dir [''notes.txt''] [])) ''.'' None ''gpt-4o'' = Inr u \<and>
        total_tokens u = 40 \<and> all_input (costs u) = 40 / 1000000 * 5"
proof -
  have a: "\<not> skip_dir_in ''.''" by code_simp
  have b: "has_file_type [''.py'', ''.txt'', ''.md'', ''.json''] ''notes.txt''" by code_simp
  have c: "rnd \<lparr>read_text = always_returns ''hello world'', getsize = always_returns 11,
           encode = always_returns (replicate 40 0), rnd = id\<rparr> 0 = 0"
    by simp
  have d: "\<forall>x. rnd \<lparr>read_text = always_returns ''hello world'', getsize = always_returns 11,
           encode = always_returns (replicate 40 0), rnd = id\<rparr>
          (rnd \<lparr>read_text = always_returns ''hello world'', getsize = always_returns 11,
           encode = always_returns (replicate 40 0), rnd = id\<rparr> x) =
        rnd \<lparr>read_text = always_returns ''hello world'', getsize = always_returns 11,
           encode = always_returns (replicate 40 0), rnd = id\<rparr> x"
    by simp
  show ?thesis
    using a b
      all_input_cost[OF c d, of 40 "''gpt-4o''"
        "Some (Dir [''notes.txt''] [])" "''.''" None "''notes.txt''" "''hello world''"
        "replicate 40 0" 11]
    by (auto simp: always_returns_def)
qed

text \<open>
  Claim C9. A file whose analysis carries an error leaves the loop's variables as they
  were. The estimate is always returned, and in it \<open>total_files\<close> is the length of
  \<open>file_results\<close>, \<open>total_tokens\<close> is the sum of their token counts, none of them
  carries an error, and they are, up to order, the analyses without error.
\<close>

theorem failed_files_contribute_nothing:
  "(error (analyze_file_tokens os (path_join r f) model) \<noteq> None \<longrightarrow>
      process_file os ft model r f st = st) \<and>
   (\<exists>u. estimate_project_usage os tree directory file_types model = Inr u \<and>
        total_files u = int (length (file_results u)) \<and>
        total_tokens u = sum_list (map tokens (file_results u)) \<and>
        list_all no_error (file_results u) \<and>
        mset (file_results u) =
          mset (filter no_error
                 (analysed_walk os
                    (case file_types of None \<Rightarrow> [''.py'', ''.txt'', ''.md'', ''.json'']
                     | Some ts \<Rightarrow> ts)
                    model
                    (case tree of None \<Rightarrow> [] | Some d \<Rightarrow> os_walk directory d))))"
  by (simp add: process_file_failed estimate_project_usage_eq Let_def mset_sorted
      length_sorted set_sorted sum_tokens_sorted list_all_iff)

theorem failed_files_contribute_nothing_witness:
  "error (analyze_file_tokens
            \<lparr>read_text = raises_on ''./bad.txt'' (Raise ''UnicodeDecodeError'' ''invalid start byte'')
                           ''hello world'',
             getsize = always_returns 11, encode = always_returns [1, 2, 3], rnd = id\<rparr>
            (path_join ''.'' ''bad.txt'') ''gpt-4o'') \<noteq> None \<and>
   process_file
     \<lparr>read_text = raises_on ''./bad.txt'' (Raise ''UnicodeDecodeError'' ''invalid start byte'')
                    ''hello world'',
      getsize = always_returns 11, encode = always_returns [1, 2, 3], rnd = id\<rparr>
     [''.txt''] ''gpt-4o'' ''.'' ''bad.txt''
     \<lparr>acc_tokens = 7, acc_files = 2, acc_results = []\<rparr> =
     \<lparr>acc_tokens = 7, acc_files = 2, acc_results = []\<rparr> \<and>
   estimate_project_usage
     \<lparr>read_text = raises_on ''./bad.txt'' (Raise ''UnicodeDecodeError'' ''invalid start byte'')
                    ''hello world'',
      getsize = always_returns 11, encode = always_returns [1, 2, 3], rnd = id\<rparr>
     (Some (Dir [''bad.txt'', ''good.txt''] [])) ''.'' None ''gpt-4o'' =
     Inr \<lparr>total_tokens = 3, total_files = 1,
          costs = \<lparr>all_input = 3 / 200000, all_output = 3 / 50000, mixed = 3 / 80000\<rparr>,
          file_results = [\<lparr>filepath = ''./good.txt'', tokens = 3, size_bytes = 11,
                           tokens_per_kb = 3072 / 11, error = None\<rparr>]\<rparr>"
proof -
  have a: "error (analyze_file_tokens
            \<lparr>read_text = raises_on ''./bad.txt'' (Raise ''UnicodeDecodeError'' ''invalid start byte'')
                           ''hello world'',
             getsize = always_returns 11, encode = always_returns [1, 2, 3], rnd = id\<rparr>
            (path_join ''.'' ''bad.txt'') ''gpt-4o'') \<noteq> None"
    by code_simp
  have e: "estimate_project_usage
     \<lparr>read_text = raises_on ''./bad.txt'' (Raise ''UnicodeDecodeError'' ''invalid start byte'')
                    ''hello world'',
      getsize = always_returns 11, encode = always_returns [1, 2, 3], rnd = id\<rparr>
     (Some (Dir [''bad.txt'', ''good.txt''] [])) ''.'' None ''gpt-4o'' =
     Inr \<lparr>total_tokens = 3, total_files = 1,
          costs = \<lparr>all_input = 3 / 200000, all_output = 3 / 50000, mixed = 3 / 80000\<rparr>,
          file_results = [\<lparr>filepath = ''./good.txt'', tokens = 3, size_bytes = 11,
                           tokens_per_kb = 3072 / 11, error = None\<rparr>]\<rparr>"
    by code_simp
  note t = failed_files_contribute_nothing[of
      "\<lparr>read_text = raises_on ''./bad.txt'' (Raise ''UnicodeDecodeError'' ''invalid start byte'')
                    ''hello world'',
        getsize = always_returns 11, encode = always_returns [1, 2, 3], rnd = id\<rparr>"
      "''.''" "''bad.txt''" "''gpt-4o''" "[''.txt'']"
      "\<lparr>acc_tokens = 7, acc_files = 2, acc_results = []\<rparr>"]
  from t a have p: "process_file
     \<lparr>read_text = raises_on ''./bad.txt'' (Raise ''UnicodeDecodeError'' ''invalid start byte'')
                    ''hello world'',
      getsize = always_returns 11, encode = always_returns [1, 2, 3], rnd = id\<rparr>
     [''.txt''] ''gpt-4o'' ''.'' ''bad.txt''
     \<lparr>acc_tokens = 7, acc_files = 2, acc_results = []\<rparr> =
     \<lparr>acc_tokens = 7, acc_files = 2, acc_results = []\<rparr>"
    by blast
  show ?thesis
    by (intro conjI) (rule a p e)+
qed

end
